theory Spec2Isabelle
  imports Complex_Main
begin

section \<open>JavaScript numbers\<close>

text \<open>
  The finite values of a JavaScript number are modelled as exact reals (rounding is not
  modelled). The three non-finite values are kept, because the code divides by values
  that can be zero and compares the quotient: \<open>0 / 0\<close> is \<open>NaN\<close>, a positive number
  divided by \<open>0\<close> is \<open>Infinity\<close>, and every comparison with \<open>NaN\<close> is false.
  No divisor of this program is the negative zero: a divisor is either the length of an
  array or a stored timestamp, and the stored sample went through \<open>JSON.stringify\<close>,
  which writes \<open>-0\<close> as \<open>0\<close>.
\<close>

datatype jsnum = Num real | PosInf | NegInf | NaN

definition js_div :: "real \<Rightarrow> real \<Rightarrow> jsnum" where
  "js_div a b =
     (if b = 0 then (if a = 0 then NaN else if 0 < a then PosInf else NegInf)
      else Num (a / b))"

fun js_gt :: "jsnum \<Rightarrow> real \<Rightarrow> bool" where
  "js_gt (Num a) t = (a > t)"
| "js_gt PosInf t = True"
| "js_gt NegInf t = False"
| "js_gt NaN t = False"

fun js_lt :: "jsnum \<Rightarrow> real \<Rightarrow> bool" where
  "js_lt (Num a) t = (a < t)"
| "js_lt PosInf t = False"
| "js_lt NegInf t = True"
| "js_lt NaN t = False"

section \<open>The Gesture model (Backend/src/models/Gesture.js)\<close>

subsection \<open>Data\<close>

text \<open>A position \<open>{x, y, z}\<close>.\<close>

datatype position = Position (px: real) (py: real) (pz: real)

text \<open>The gesture sample \<open>{positions, timing}\<close> sent by the client and kept in the template.\<close>

record gesture_data =
  positions :: "position list"
  timing :: "real list"

record usage_stats =
  totalAttempts :: int
  successfulAttempts :: int
  failedAttempts :: int
  averageConfidence :: real
  lastUsed :: "int option"

text \<open>
  A Gesture document. The field \<open>stored\<close> stands for the outcome of
  \<open>decryptGestureData\<close> on the document's \<open>gestureData\<close> and \<open>encryptionKey\<close>:
  \<open>None\<close> when deciphering or \<open>JSON.parse\<close> throws. Dates are milliseconds.
\<close>

record gesture_doc =
  stored :: "gesture_data option"
  tolerance_position :: real
  tolerance_timing :: real
  usageStats :: usage_stats
  isActive :: bool

datatype js_error = DecryptFailed | TypeError | GestureValidationFailed

definition decryptGestureData :: "gesture_doc \<Rightarrow> js_error + gesture_data" where
  "decryptGestureData this =
     (case stored this of None \<Rightarrow> Inl DecryptFailed | Some g \<Rightarrow> Inr g)"

subsection \<open>comparePositions\<close>

text \<open>The Euclidean distance computed inside the loop of \<open>comparePositions\<close>.\<close>

definition distance :: "position \<Rightarrow> position \<Rightarrow> real" where
  "distance storedPos inputPos =
     sqrt ((px storedPos - px inputPos)\<^sup>2 + (py storedPos - py inputPos)\<^sup>2 +
           (pz storedPos - pz inputPos)\<^sup>2)"

function comparePositions_loop :: "real \<Rightarrow> position list \<Rightarrow> position list \<Rightarrow> nat \<Rightarrow> bool" where
  "comparePositions_loop tolerance storedP inputP i =
     (if i < min (length storedP) (length inputP) then
        (if distance (storedP ! i) (inputP ! i) > tolerance then False
         else comparePositions_loop tolerance storedP inputP (i + 1))
      else True)"
  by pat_completeness auto
termination
  by (relation "measure (\<lambda>(t, s, inp, i). min (length s) (length inp) - i)") auto

declare comparePositions_loop.simps [simp del]

definition comparePositions :: "gesture_doc \<Rightarrow> position list \<Rightarrow> position list \<Rightarrow> bool" where
  "comparePositions this storedP inputP =
     comparePositions_loop (tolerance_position this) storedP inputP 0"

subsection \<open>compareTiming\<close>

function compareTiming_loop :: "real \<Rightarrow> real list \<Rightarrow> real list \<Rightarrow> nat \<Rightarrow> bool" where
  "compareTiming_loop tolerance storedT inputT i =
     (if i < min (length storedT) (length inputT) then
        (let timeDiff = \<bar>storedT ! i - inputT ! i\<bar>;
             relativeDiff = js_div timeDiff (storedT ! i)
         in if js_gt relativeDiff tolerance then False
            else compareTiming_loop tolerance storedT inputT (i + 1))
      else True)"
  by pat_completeness auto
termination
  by (relation "measure (\<lambda>(t, s, inp, i). min (length s) (length inp) - i)") auto

declare compareTiming_loop.simps [simp del]

definition compareTiming :: "gesture_doc \<Rightarrow> real list \<Rightarrow> real list \<Rightarrow> bool" where
  "compareTiming this storedT inputT =
     compareTiming_loop (tolerance_timing this) storedT inputT 0"

subsection \<open>calculateConfidence\<close>

text \<open>
  \<open>calculateConfidence\<close> calls \<open>this.calculatePositionConfidence\<close> and
  \<open>this.calculateTimingConfidence\<close>. Neither is assigned on \<open>gestureSchema.methods\<close>
  (the schema defines \<open>encryptGestureData\<close>, \<open>decryptGestureData\<close>, \<open>validateGesture\<close>,
  \<open>comparePositions\<close>, \<open>compareTiming\<close> and \<open>calculateConfidence\<close> only) and no other
  file defines them, so on a document both lookups give \<open>undefined\<close>, here \<open>None\<close>,
  and calling the result throws a \<open>TypeError\<close>.
\<close>

definition calculatePositionConfidence :: "(position list \<Rightarrow> position list \<Rightarrow> real) option" where
  "calculatePositionConfidence = None"

definition calculateTimingConfidence :: "(real list \<Rightarrow> real list \<Rightarrow> real) option" where
  "calculateTimingConfidence = None"

definition calculateConfidence :: "gesture_doc \<Rightarrow> gesture_data \<Rightarrow> gesture_data \<Rightarrow> js_error + real" where
  "calculateConfidence this storedG inputG =
     (case calculatePositionConfidence of
        None \<Rightarrow> Inl TypeError
      | Some pc \<Rightarrow>
          (case calculateTimingConfidence of
             None \<Rightarrow> Inl TypeError
           | Some tc \<Rightarrow>
               (let positionConfidence = pc (positions storedG) (positions inputG);
                    timingConfidence = tc (timing storedG) (timing inputG);
                    conf = (positionConfidence + timingConfidence) / 2
                in Inr (max 0 (min 1 conf)))))"

subsection \<open>validateGesture\<close>

record validation =
  success :: bool
  confidence :: real

text \<open>
  The whole body runs inside \<open>try\<close>; whatever is thrown there is replaced by
  \<open>Error('Gesture validation failed')\<close>. The statistics are written after
  \<open>calculateConfidence\<close> has returned, so a call that throws leaves the document as
  it was. The argument \<open>now\<close> is the value of \<open>new Date()\<close>.
\<close>

definition validateGesture ::
    "gesture_doc \<Rightarrow> gesture_data \<Rightarrow> int \<Rightarrow> js_error + (validation \<times> gesture_doc)" where
  "validateGesture this inputGesture now =
     (case decryptGestureData this of
        Inl e \<Rightarrow> Inl GestureValidationFailed
      | Inr storedGesture \<Rightarrow>
          (let positionMatch = comparePositions this (positions storedGesture) (positions inputGesture);
               timingMatch = compareTiming this (timing storedGesture) (timing inputGesture);
               succ = (positionMatch \<and> timingMatch)
           in case calculateConfidence this storedGesture inputGesture of
                Inl e \<Rightarrow> Inl GestureValidationFailed
              | Inr conf \<Rightarrow>
                  (let st = usageStats this;
                       st1 = st\<lparr>totalAttempts := totalAttempts st + 1\<rparr>;
                       st2 = (if succ
                              then st1\<lparr>successfulAttempts := successfulAttempts st1 + 1\<rparr>
                              else st1\<lparr>failedAttempts := failedAttempts st1 + 1\<rparr>);
                       st3 = st2\<lparr>lastUsed := Some now\<rparr>
                   in Inr (\<lparr>success = succ, confidence = conf\<rparr>,
                           this\<lparr>usageStats := st3\<rparr>))))"

section \<open>The User model: lockout (models/User.js)\<close>

record user_stats =
  totalLogins :: int
  successfulLogins :: int
  streakDays :: int
  lastLoginDate :: "int option"

text \<open>
  The fields of a User document that the lockout and the login route read or write.
  The document is the persisted one: \<open>updateOne\<close> writes to the store, and every request
  loads the user again. A field removed by \<open>$unset\<close> reads as its schema default when the
  document is loaded, \<open>0\<close> for \<open>loginAttempts\<close> and \<open>null\<close> for \<open>lockUntil\<close>.
\<close>

record user_doc =
  loginAttempts :: int
  lockUntil :: "int option"
  lastLogin :: "int option"
  stats :: user_stats

text \<open>The virtual \<open>isLocked\<close>; \<open>now\<close> is \<open>Date.now()\<close>. A Date object is truthy.\<close>

definition isLocked :: "user_doc \<Rightarrow> int \<Rightarrow> bool" where
  "isLocked this now = (case lockUntil this of None \<Rightarrow> False | Some l \<Rightarrow> l > now)"

definition incLoginAttempts :: "user_doc \<Rightarrow> int \<Rightarrow> user_doc" where
  "incLoginAttempts this now =
     (if (case lockUntil this of None \<Rightarrow> False | Some l \<Rightarrow> l < now)
      then this\<lparr>lockUntil := None, loginAttempts := 1\<rparr>
      else (let incremented = this\<lparr>loginAttempts := loginAttempts this + 1\<rparr>
            in if loginAttempts this + 1 \<ge> 5 \<and> \<not> isLocked this now
               then incremented\<lparr>lockUntil := Some (now + 2 * 60 * 60 * 1000)\<rparr>
               else incremented))"

definition resetLoginAttempts :: "user_doc \<Rightarrow> int \<Rightarrow> user_doc" where
  "resetLoginAttempts this now = this\<lparr>loginAttempts := 0, lockUntil := None, lastLogin := Some now\<rparr>"

section \<open>The login route (routes/auth.js)\<close>





subsection \<open>The rate limiter (middleware/auth.js)\<close>




section \<open>Anti-spoofing (Frontend/js/modules/security.js)\<close>

text \<open>
  The argument of \<open>performAntiSpoofingCheck\<close>; a field that the object does not have
  (\<open>undefined\<close>) is \<open>None\<close>.
\<close>

record spoof_sample =
  depthData :: "real list option"
  motionData :: "position list option"
  timingData :: "real list option"

record analysis =
  suspicious :: bool
  severity :: "string option"
  reason :: "string option"

record security_event =
  ev_type :: string
  ev_severity :: "string option"
  ev_reason :: "string option"
  ev_timestamp :: int
  ev_threatLevel :: string

record security_manager =
  antiSpoofingEnabled :: bool
  threatLevel :: string
  securityEvents :: "security_event list"

text \<open>
  \<open>recordSecurityEvent\<close> appends the event and keeps the last 1000. Its call into the
  analytics manager queues a copy of the event there and does not throw; that queue is
  not part of the model.
\<close>

definition recordSecurityEvent ::
    "security_manager \<Rightarrow> string \<Rightarrow> string option \<Rightarrow> string option \<Rightarrow> int \<Rightarrow> security_manager" where
  "recordSecurityEvent this eventType sev rsn now =
     (let event = \<lparr>ev_type = eventType, ev_severity = sev, ev_reason = rsn,
                   ev_timestamp = now, ev_threatLevel = threatLevel this\<rparr>;
          events = securityEvents this @ [event]
      in this\<lparr>securityEvents :=
           (if length events > 1000 then drop (length events - 1000) events else events)\<rparr>)"

text \<open>\<open>Math.max(...xs)\<close>: \<open>-Infinity\<close> for no argument.\<close>

definition Math_max :: "real list \<Rightarrow> jsnum" where
  "Math_max xs = (case xs of [] \<Rightarrow> NegInf | v # vs \<Rightarrow> Num (fold max vs v))"

text \<open>\<open>xs.map((v, index) => index === 0 ? 0 : f(v, xs[index - 1]))\<close>.\<close>

definition map_with_previous :: "('a \<Rightarrow> 'a \<Rightarrow> real) \<Rightarrow> 'a list \<Rightarrow> real list" where
  "map_with_previous f xs =
     map (\<lambda>index. if index = 0 then 0 else f (xs ! index) (xs ! (index - 1))) [0..<length xs]"

definition checkDepthConsistency :: "real list \<Rightarrow> bool" where
  "checkDepthConsistency depths =
     (let variations = map_with_previous (\<lambda>depth prev. \<bar>depth - prev\<bar>) depths;
          avgVariation = js_div (foldl (\<lambda>sum v. sum + v) 0 variations) (real (length variations))
      in js_gt avgVariation 0.1)"

definition analyzeMotionPatterns :: "position list option \<Rightarrow> js_error + analysis" where
  "analyzeMotionPatterns motion =
     (case motion of
        None \<Rightarrow> Inl TypeError
      | Some md \<Rightarrow>
          (let velocities = map_with_previous (\<lambda>pos prevPosition. distance pos prevPosition) md;
               accelerationChanges = map_with_previous (\<lambda>velocity prev. \<bar>velocity - prev\<bar>) velocities;
               maxAcceleration = Math_max accelerationChanges
           in if js_gt maxAcceleration 100
              then Inr \<lparr>suspicious = True, severity = Some ''medium'',
                        reason = Some ''unnatural_acceleration''\<rparr>
              else Inr \<lparr>suspicious = False, severity = None, reason = None\<rparr>))"

text \<open>
  With no timestamp both quotients are \<open>0 / 0\<close>, that is \<open>NaN\<close>, and \<open>NaN < 0.01\<close> is
  false. With at least one timestamp both quotients are finite.
\<close>

definition analyzeTimingPatterns :: "real list option \<Rightarrow> js_error + analysis" where
  "analyzeTimingPatterns td =
     (case td of
        None \<Rightarrow> Inl TypeError
      | Some ts \<Rightarrow>
          (let intervals = map_with_previous (\<lambda>time prev. time - prev) ts;
               notSuspicious = \<lparr>suspicious = False, severity = None, reason = None\<rparr>
           in case js_div (foldl (\<lambda>sum interval. sum + interval) 0 intervals)
                          (real (length intervals)) of
                Num avgInterval \<Rightarrow>
                  (let variance =
                         js_div (foldl (\<lambda>sum interval. sum + (interval - avgInterval)\<^sup>2) 0 intervals)
                                (real (length intervals))
                   in if js_lt variance 0.01
                      then Inr \<lparr>suspicious = True, severity = Some ''high'',
                                reason = Some ''too_perfect_timing''\<rparr>
                      else Inr notSuspicious)
              | _ \<Rightarrow> Inr notSuspicious))"

text \<open>The body of the \<open>try\<close> block of \<open>performAntiSpoofingCheck\<close>.\<close>

definition antiSpoofing_try ::
    "security_manager \<Rightarrow> spoof_sample \<Rightarrow> int \<Rightarrow> js_error + (bool \<times> security_manager)" where
  "antiSpoofing_try this gestureData now =
     (if (case depthData gestureData of None \<Rightarrow> False | Some d \<Rightarrow> \<not> checkDepthConsistency d)
      then Inr (False, recordSecurityEvent this ''depth_inconsistency_detected''
                         (Some ''high'') (Some ''possible_spoofing'') now)
      else case analyzeMotionPatterns (motionData gestureData) of
        Inl e \<Rightarrow> Inl e
      | Inr motionAnalysis \<Rightarrow>
          if suspicious motionAnalysis
          then Inr (False, recordSecurityEvent this ''suspicious_motion_pattern''
                             (severity motionAnalysis) (reason motionAnalysis) now)
          else (case analyzeTimingPatterns (timingData gestureData) of
              Inl e \<Rightarrow> Inl e
            | Inr timingAnalysis \<Rightarrow>
                if suspicious timingAnalysis
                then Inr (False, recordSecurityEvent this ''suspicious_timing_pattern''
                                   (severity timingAnalysis) (reason timingAnalysis) now)
                else Inr (True, this)))"

text \<open>\<open>catch (error) { ...; return true; // Fail open for now }\<close>\<close>

definition performAntiSpoofingCheck ::
    "security_manager \<Rightarrow> spoof_sample \<Rightarrow> int \<Rightarrow> bool \<times> security_manager" where
  "performAntiSpoofingCheck this gestureData now =
     (if \<not> antiSpoofingEnabled this then (True, this)
      else case antiSpoofing_try this gestureData now of
        Inl error \<Rightarrow> (True, this)
      | Inr r \<Rightarrow> r)"

section \<open>Gesture complexity (routes/gestures.js)\<close>

text \<open>\<open>Math.round\<close>: the nearest integer, a tie going up.\<close>

definition Math_round :: "real \<Rightarrow> int" where
  "Math_round v = \<lfloor>v + 1 / 2\<rfloor>"

function totalDistance_loop :: "position list \<Rightarrow> nat \<Rightarrow> real \<Rightarrow> real" where
  "totalDistance_loop ps i totalDistance =
     (if i < length ps
      then totalDistance_loop ps (i + 1) (totalDistance + distance (ps ! i) (ps ! (i - 1)))
      else totalDistance)"
  by pat_completeness auto
termination
  by (relation "measure (\<lambda>(ps, i, t). length ps - i)") auto

declare totalDistance_loop.simps [simp del]

text \<open>
  The result is a JavaScript number: with an empty \<open>timing\<close> the average is \<open>0 / 0\<close>, and
  \<open>NaN\<close> goes through \<open>Math.round\<close>, \<open>Math.max\<close> and \<open>Math.min\<close> unchanged.
\<close>

definition calculateComplexity :: "gesture_data \<Rightarrow> jsnum" where
  "calculateComplexity gestureData =
     (let ps = positions gestureData; ts = timing gestureData;
          c1 = 1 + real (length ps) * 0.5;
          totalDistance = totalDistance_loop ps 1 0;
          c2 = c1 + totalDistance * 0.1
      in case js_div (foldl (\<lambda>sum t. sum + t) 0 ts) (real (length ts)) of
           Num avgTime \<Rightarrow>
             (case js_div (foldl (\<lambda>sum t. sum + (t - avgTime)\<^sup>2) 0 ts) (real (length ts)) of
                Num timeVariance \<Rightarrow>
                  (let c3 = c2 + timeVariance * 0.01
                   in Num (real_of_int (min 10 (max 1 (Math_round c3)))))
              | _ \<Rightarrow> NaN)
         | _ \<Rightarrow> NaN)"

section \<open>Notions used to state the properties\<close>

text \<open>The population variance of a list of numbers: the mean squared deviation from the mean.\<close>

definition population_variance :: "real list \<Rightarrow> real" where
  "population_variance xs =
     (let mean = sum_list xs / real (length xs)
      in (\<Sum>v\<leftarrow>xs. (v - mean)\<^sup>2) / real (length xs))"


text \<open>The sum of the distances between consecutive positions.\<close>

definition path_length :: "position list \<Rightarrow> real" where
  "path_length ps = (\<Sum>j = 1..<length ps. distance (ps ! j) (ps ! (j - 1)))"

text \<open>A template with the schema's default tolerances and untouched statistics.\<close>

abbreviation fresh_usageStats :: usage_stats where
  "fresh_usageStats \<equiv>
     \<lparr>totalAttempts = 0, successfulAttempts = 0, failedAttempts = 0,
      averageConfidence = 0, lastUsed = None\<rparr>"

abbreviation default_template :: "gesture_data option \<Rightarrow> gesture_doc" where
  "default_template g \<equiv>
     \<lparr>stored = g, tolerance_position = 0.15, tolerance_timing = 0.2,
      usageStats = fresh_usageStats, isActive = True\<rparr>"

abbreviation fresh_user_stats :: user_stats where
  "fresh_user_stats \<equiv>
     \<lparr>totalLogins = 0, successfulLogins = 0, streakDays = 0, lastLoginDate = None\<rparr>"

section \<open>Properties of the two matching passes\<close>

lemma all_from_step:
  "i < n \<Longrightarrow> (\<forall>j. i \<le> j \<and> j < n \<longrightarrow> P j) = (P i \<and> (\<forall>j. i + 1 \<le> j \<and> j < n \<longrightarrow> P j))"
  for i :: nat
proof -
  assume lt: "i < n"
  have "\<And>j. (i \<le> j) = (j = i \<or> i + 1 \<le> j)" by auto
  then show ?thesis using lt by auto
qed

lemma comparePositions_loop_iff:
  "comparePositions_loop tol s inp i =
     (\<forall>j. i \<le> j \<and> j < min (length s) (length inp) \<longrightarrow> \<not> distance (s ! j) (inp ! j) > tol)"
proof (induction tol s inp i rule: comparePositions_loop.induct)
  case (1 tol s inp i)
  show ?case
  proof (cases "i < min (length s) (length inp)")
    case False
    then show ?thesis
      by (subst comparePositions_loop.simps) auto
  next
    case inrange: True
    show ?thesis
    proof (cases "distance (s ! i) (inp ! i) > tol")
      case True
      with inrange show ?thesis
        by (subst comparePositions_loop.simps) auto
    next
      case False
      have step: "comparePositions_loop tol s inp i = comparePositions_loop tol s inp (i + 1)"
        using inrange False by (subst comparePositions_loop.simps) simp
      have ih: "comparePositions_loop tol s inp (i + 1) =
          (\<forall>j. i + 1 \<le> j \<and> j < min (length s) (length inp) \<longrightarrow> \<not> distance (s ! j) (inp ! j) > tol)"
        using "1.IH" inrange False by simp
      show ?thesis
        unfolding step ih using all_from_step [OF inrange, of "\<lambda>j. \<not> distance (s ! j) (inp ! j) > tol"] False
        by simp
    qed
  qed
qed

lemma comparePositions_iff:
  "comparePositions this s inp =
     (\<not> (\<exists>i < min (length s) (length inp). distance (s ! i) (inp ! i) > tolerance_position this))"
  by (auto simp: comparePositions_def comparePositions_loop_iff)

lemma compareTiming_loop_iff:
  "compareTiming_loop tol s inp i =
     (\<forall>j. i \<le> j \<and> j < min (length s) (length inp) \<longrightarrow>
          \<not> js_gt (js_div \<bar>s ! j - inp ! j\<bar> (s ! j)) tol)"
proof (induction tol s inp i rule: compareTiming_loop.induct)
  case (1 tol s inp i)
  show ?case
  proof (cases "i < min (length s) (length inp)")
    case False
    then show ?thesis
      by (subst compareTiming_loop.simps) auto
  next
    case inrange: True
    show ?thesis
    proof (cases "js_gt (js_div \<bar>s ! i - inp ! i\<bar> (s ! i)) tol")
      case True
      with inrange show ?thesis
        by (subst compareTiming_loop.simps) (auto simp: Let_def)
    next
      case False
      have step: "compareTiming_loop tol s inp i = compareTiming_loop tol s inp (i + 1)"
        using inrange False by (subst compareTiming_loop.simps) (simp add: Let_def)
      have ih: "compareTiming_loop tol s inp (i + 1) =
          (\<forall>j. i + 1 \<le> j \<and> j < min (length s) (length inp) \<longrightarrow>
               \<not> js_gt (js_div \<bar>s ! j - inp ! j\<bar> (s ! j)) tol)"
        using "1.IH" inrange False by simp
      show ?thesis
        unfolding step ih
        using all_from_step [OF inrange, of "\<lambda>j. \<not> js_gt (js_div \<bar>s ! j - inp ! j\<bar> (s ! j)) tol"] False
        by simp
    qed
  qed
qed

text \<open>What one index of the timing pass decides, in terms of the two timestamps.\<close>

lemma timing_index_passes:
  "(\<not> js_gt (js_div \<bar>a - b\<bar> a) tol) = (if a = 0 then b = 0 else \<not> \<bar>a - b\<bar> / a > tol)"
  by (simp add: js_div_def)

lemma compareTiming_iff:
  "compareTiming this s inp =
     (\<forall>i < min (length s) (length inp).
        if s ! i = 0 then inp ! i = 0 else \<not> \<bar>s ! i - inp ! i\<bar> / s ! i > tolerance_timing this)"
  unfolding compareTiming_def compareTiming_loop_iff timing_index_passes by simp

lemma distance_nonneg: "0 \<le> distance a b"
  by (simp add: distance_def)

lemma distance_self: "distance p p = 0"
  by (simp add: distance_def)

lemma distance_scenario: "distance (Position 0 0 0) (Position 0 0.2 0) > 0.15"
  unfolding distance_def by (rule real_less_rsqrt) (simp add: power2_eq_square)

section \<open>validateGesture\<close>

text \<open>
  Every call of \<open>validateGesture\<close> ends in the \<open>catch\<close> block: either decryption throws,
  or \<open>calculateConfidence\<close> calls a method that the schema does not define. The
  statistics are written only after that call, so they are never written.
\<close>

lemma validateGesture_throws:
  "validateGesture this inputGesture now = Inl GestureValidationFailed"
  by (simp add: validateGesture_def calculateConfidence_def calculatePositionConfidence_def
      split: sum.split)

text \<open>
  C1 (the code departs from the claim). The claim: one call of \<open>validateGesture\<close> returns
  \<open>{success, confidence}\<close> and adds one to \<open>totalAttempts\<close> and to exactly one of
  \<open>successfulAttempts\<close> and \<open>failedAttempts\<close>. The code, for a template with the default
  tolerances validated against the very sample it stores: the call throws
  \<open>Error('Gesture validation failed')\<close>; no result is returned and the statistics stay
  as they were.
\<close>

theorem validateGesture_identical_sample_throws:
  "validateGesture
     (default_template (Some \<lparr>positions = [Position 0 0 0, Position 0.1 0 0, Position 0.2 0.1 0],
                              timing = [0, 500, 1000]\<rparr>))
     \<lparr>positions = [Position 0 0 0, Position 0.1 0 0, Position 0.2 0.1 0], timing = [0, 500, 1000]\<rparr> 1
   = Inl GestureValidationFailed"
proof -
  let ?g = "\<lparr>positions = [Position 0 0 0, Position 0.1 0 0, Position 0.2 0.1 0],
             timing = [0, 500, 1000]\<rparr>"
  have decrypted: "decryptGestureData (default_template (Some ?g)) = Inr ?g"
    by (simp add: decryptGestureData_def)
  have undefined_method: "calculatePositionConfidence = None"
    by (simp add: calculatePositionConfidence_def)
  have thrown: "calculateConfidence (default_template (Some ?g)) ?g ?g = Inl TypeError"
    by (simp add: calculateConfidence_def undefined_method)
  show ?thesis
    by (simp only: validateGesture_def decrypted sum.case Let_def thrown)
qed

text \<open>
  The position pass itself does what C2 says of it: it fails exactly when some index below
  the shorter length has a distance strictly greater than the tolerance
  (\<open>comparePositions_iff\<close>).

  C2 (the code departs from the claim). In the scenario of the claim (tolerance 0.15,
  stored position (0,0,0), live position (0,0.2,0) at index 1) the position pass returns
  false, but \<open>validateGesture\<close> does not return \<open>success = false\<close>: it throws.
\<close>

theorem validateGesture_position_scenario_throws:
  "\<not> comparePositions
        (default_template (Some \<lparr>positions = [Position 0 0 0, Position 0 0 0, Position 0 0 0],
                                 timing = [0, 500, 1000]\<rparr>))
        [Position 0 0 0, Position 0 0 0, Position 0 0 0]
        [Position 0 0 0, Position 0 0.2 0, Position 0 0 0]
   \<and> validateGesture
        (default_template (Some \<lparr>positions = [Position 0 0 0, Position 0 0 0, Position 0 0 0],
                                 timing = [0, 500, 1000]\<rparr>))
        \<lparr>positions = [Position 0 0 0, Position 0 0.2 0, Position 0 0 0], timing = [0, 500, 1000]\<rparr> 1
      = Inl GestureValidationFailed"
proof
  show "\<not> comparePositions
        (default_template (Some \<lparr>positions = [Position 0 0 0, Position 0 0 0, Position 0 0 0],
                                 timing = [0, 500, 1000]\<rparr>))
        [Position 0 0 0, Position 0 0 0, Position 0 0 0]
        [Position 0 0 0, Position 0 0.2 0, Position 0 0 0]"
    unfolding comparePositions_iff using distance_scenario
    by (auto intro!: exI [of _ 1])
qed (rule validateGesture_throws)

section \<open>The timing pass and zero timestamps\<close>

text \<open>
  C3. \<open>compareTiming\<close> returns true exactly when every index below the shorter length
  passes, where an index with a stored timestamp other than 0 passes when the relative
  difference \<open>|stored - live| / stored\<close> is not greater than the timing tolerance, and an
  index with stored timestamp 0 passes when the live timestamp is 0 too and fails the
  match otherwise.
\<close>

theorem compareTiming_zero_handling:
  "compareTiming this storedT inputT =
     (\<forall>i < min (length storedT) (length inputT).
        if storedT ! i = 0 then inputT ! i = 0
        else \<not> \<bar>storedT ! i - inputT ! i\<bar> / storedT ! i > tolerance_timing this)"
proof -
  have loop: "compareTiming this storedT inputT =
      (\<forall>j. 0 \<le> j \<and> j < min (length storedT) (length inputT) \<longrightarrow>
           \<not> js_gt (js_div \<bar>storedT ! j - inputT ! j\<bar> (storedT ! j)) (tolerance_timing this))"
    unfolding compareTiming_def by (rule compareTiming_loop_iff)
  have index: "(\<not> js_gt (js_div \<bar>storedT ! j - inputT ! j\<bar> (storedT ! j)) (tolerance_timing this))
      = (if storedT ! j = 0 then inputT ! j = 0
         else \<not> \<bar>storedT ! j - inputT ! j\<bar> / storedT ! j > tolerance_timing this)" for j
  proof (cases "storedT ! j = 0")
    case True
    then show ?thesis by (cases "inputT ! j = 0") (simp_all add: js_div_def)
  next
    case False
    then show ?thesis by (simp add: js_div_def)
  qed
  show ?thesis unfolding loop index by simp
qed

theorem compareTiming_zero_handling_witness:
  "compareTiming (default_template None) [0, 1000, 2000] [0, 1100, 2100]
   \<and> \<not> compareTiming (default_template None) [0, 1000, 2000] [5, 1000, 2000]
   \<and> \<not> compareTiming (default_template None) [0, 1000, 2000] [0, 1300, 2000]"
  using compareTiming_zero_handling [of "default_template None" "[0, 1000, 2000]" "[0, 1100, 2100]"]
    compareTiming_zero_handling [of "default_template None" "[0, 1000, 2000]" "[5, 1000, 2000]"]
    compareTiming_zero_handling [of "default_template None" "[0, 1000, 2000]" "[0, 1300, 2000]"]
  by (simp add: numeral_3_eq_3 less_Suc_eq)

section \<open>A shorter live sample\<close>

text \<open>
  C10. Neither pass compares the lengths. A live sample that is strictly shorter than the
  stored one and agrees with it within tolerance on each of its own indices passes both
  \<open>comparePositions\<close> and \<open>compareTiming\<close>.
\<close>

theorem truncated_prefix_passes:
  assumes "length (positions live) < length (positions st)"
    and "length (timing live) < length (timing st)"
    and "\<forall>i < length (positions live).
           distance (positions st ! i) (positions live ! i) \<le> tolerance_position this"
    and "\<forall>i < length (timing live).
           if timing st ! i = 0 then timing live ! i = 0
           else \<bar>timing st ! i - timing live ! i\<bar> / timing st ! i \<le> tolerance_timing this"
  shows "comparePositions this (positions st) (positions live)
       \<and> compareTiming this (timing st) (timing live)"
proof
  have "min (length (positions st)) (length (positions live)) = length (positions live)"
    using assms(1) by simp
  then show "comparePositions this (positions st) (positions live)"
    using assms(3) by (auto simp: comparePositions_iff not_less)
next
  have "min (length (timing st)) (length (timing live)) = length (timing live)"
    using assms(2) by simp
  then show "compareTiming this (timing st) (timing live)"
    using assms(4) by (auto simp: compareTiming_iff not_less split: if_splits)
qed

theorem truncated_prefix_passes_witness:
  "comparePositions (default_template None)
       [Position 0 0 0, Position 1 0 0, Position 1 1 0, Position 1 1 1] [Position 0 0 0]
   \<and> compareTiming (default_template None) [0, 400, 800, 1200] [0, 430]"
  using truncated_prefix_passes [of
      "\<lparr>positions = [Position 0 0 0], timing = [0, 430]\<rparr>"
      "\<lparr>positions = [Position 0 0 0, Position 1 0 0, Position 1 1 0, Position 1 1 1],
        timing = [0, 400, 800, 1200]\<rparr>"
      "default_template None"]
  by (simp add: distance_self less_Suc_eq numeral_2_eq_2)

section \<open>Lockout\<close>

text \<open>
  C5. The transitions of the lockout state. A failure that does not meet an expired lock
  adds one to \<open>loginAttempts\<close>; when the account is not locked and the new count is at
  least 5, \<open>lockUntil\<close> becomes \<open>now\<close> plus two hours, and below 5 it is left alone. A
  failure that meets an expired lock sets \<open>loginAttempts\<close> to 1 and clears \<open>lockUntil\<close>.
  A reset sets \<open>loginAttempts\<close> to 0, clears \<open>lockUntil\<close> and stamps \<open>lastLogin\<close>.
\<close>

theorem lockout_transitions:
  "(lockUntil this = None \<or> (\<exists>l. lockUntil this = Some l \<and> now \<le> l)
      \<longrightarrow> loginAttempts (incLoginAttempts this now) = loginAttempts this + 1)
   \<and> ((lockUntil this = None \<or> lockUntil this = Some now) \<and> 5 \<le> loginAttempts this + 1
      \<longrightarrow> lockUntil (incLoginAttempts this now) = Some (now + 2 * 60 * 60 * 1000))
   \<and> ((lockUntil this = None \<or> lockUntil this = Some now) \<and> loginAttempts this + 1 < 5
      \<longrightarrow> lockUntil (incLoginAttempts this now) = lockUntil this)
   \<and> ((\<exists>l. lockUntil this = Some l \<and> l < now)
      \<longrightarrow> loginAttempts (incLoginAttempts this now) = 1
          \<and> lockUntil (incLoginAttempts this now) = None)
   \<and> loginAttempts (resetLoginAttempts this now) = 0
   \<and> lockUntil (resetLoginAttempts this now) = None
   \<and> lastLogin (resetLoginAttempts this now) = Some now"
proof (intro conjI impI)
  assume "lockUntil this = None \<or> (\<exists>l. lockUntil this = Some l \<and> now \<le> l)"
  then show "loginAttempts (incLoginAttempts this now) = loginAttempts this + 1"
    by (auto simp: incLoginAttempts_def Let_def)
next
  assume "(lockUntil this = None \<or> lockUntil this = Some now) \<and> 5 \<le> loginAttempts this + 1"
  then show "lockUntil (incLoginAttempts this now) = Some (now + 2 * 60 * 60 * 1000)"
    by (auto simp: incLoginAttempts_def isLocked_def Let_def)
next
  assume "(lockUntil this = None \<or> lockUntil this = Some now) \<and> loginAttempts this + 1 < 5"
  then show "lockUntil (incLoginAttempts this now) = lockUntil this"
    by (auto simp: incLoginAttempts_def isLocked_def Let_def)
next
  assume expired: "\<exists>l. lockUntil this = Some l \<and> l < now"
  then show "loginAttempts (incLoginAttempts this now) = 1"
    by (auto simp: incLoginAttempts_def)
  from expired show "lockUntil (incLoginAttempts this now) = None"
    by (auto simp: incLoginAttempts_def)
next
  show "loginAttempts (resetLoginAttempts this now) = 0"
    by (simp add: resetLoginAttempts_def)
  show "lockUntil (resetLoginAttempts this now) = None"
    by (simp add: resetLoginAttempts_def)
  show "lastLogin (resetLoginAttempts this now) = Some now"
    by (simp add: resetLoginAttempts_def)
qed

theorem lockout_transitions_witness:
  "loginAttempts (incLoginAttempts
      \<lparr>loginAttempts = 4, lockUntil = None, lastLogin = None, stats = fresh_user_stats\<rparr> 1000) = 5
   \<and> lockUntil (incLoginAttempts
      \<lparr>loginAttempts = 4, lockUntil = None, lastLogin = None, stats = fresh_user_stats\<rparr> 1000)
        = Some 7201000
   \<and> loginAttempts (incLoginAttempts
      \<lparr>loginAttempts = 5, lockUntil = Some 500, lastLogin = None, stats = fresh_user_stats\<rparr> 1000) = 1
   \<and> lockUntil (incLoginAttempts
      \<lparr>loginAttempts = 5, lockUntil = Some 500, lastLogin = None, stats = fresh_user_stats\<rparr> 1000)
        = None"
  using lockout_transitions [of
      "\<lparr>loginAttempts = 4, lockUntil = None, lastLogin = None, stats = fresh_user_stats\<rparr>" 1000]
    lockout_transitions [of
      "\<lparr>loginAttempts = 5, lockUntil = Some 500, lastLogin = None, stats = fresh_user_stats\<rparr>" 1000]
  by simp







section \<open>Anti-spoofing\<close>

lemma foldl_plus_sum_list:
  "foldl (\<lambda>sum v. sum + f v) a xs = a + (\<Sum>v\<leftarrow>xs. f v)" for a :: real
  by (induction xs arbitrary: a) simp_all













text \<open>When the motion data is missing, \<open>analyzeMotionPatterns\<close> throws inside the \<open>try\<close> block.\<close>

lemma antiSpoofing_try_missing_motion:
  assumes "depthData g = None \<or> (\<exists>d. depthData g = Some d \<and> checkDepthConsistency d)"
    and "motionData g = None"
  shows "antiSpoofing_try this g now = Inl TypeError"
  using assms by (auto simp: antiSpoofing_try_def analyzeMotionPatterns_def)

text \<open>
  C7. When an exception is raised inside the \<open>try\<close> block of the anti-spoofing check, the
  check returns true and leaves the security manager as it was.
\<close>

theorem antiSpoofing_fails_open:
  assumes "antiSpoofing_try this g now = Inl e"
  shows "performAntiSpoofingCheck this g now = (True, this)"
  using assms by (simp add: performAntiSpoofingCheck_def)

theorem antiSpoofing_fails_open_witness:
  "antiSpoofing_try \<lparr>antiSpoofingEnabled = True, threatLevel = ''low'', securityEvents = []\<rparr>
        \<lparr>depthData = None, motionData = None, timingData = Some [0, 120, 260]\<rparr> 1 = Inl TypeError
   \<and> performAntiSpoofingCheck
        \<lparr>antiSpoofingEnabled = True, threatLevel = ''low'', securityEvents = []\<rparr>
        \<lparr>depthData = None, motionData = None, timingData = Some [0, 120, 260]\<rparr> 1
      = (True, \<lparr>antiSpoofingEnabled = True, threatLevel = ''low'', securityEvents = []\<rparr>)"
proof -
  have h: "antiSpoofing_try \<lparr>antiSpoofingEnabled = True, threatLevel = ''low'', securityEvents = []\<rparr>
        \<lparr>depthData = None, motionData = None, timingData = Some [0, 120, 260]\<rparr> 1 = Inl TypeError"
    by (simp add: antiSpoofing_try_missing_motion)
  show ?thesis using h antiSpoofing_fails_open [OF h] by simp
qed

section \<open>Gesture complexity\<close>

lemma totalDistance_loop_sum:
  "i \<le> length ps \<Longrightarrow>
   totalDistance_loop ps i acc = acc + (\<Sum>j = i..<length ps. distance (ps ! j) (ps ! (j - 1)))"
proof (induction ps i acc rule: totalDistance_loop.induct)
  case (1 ps i acc)
  show ?case
  proof (cases "i < length ps")
    case True
    then have "totalDistance_loop ps i acc =
        totalDistance_loop ps (i + 1) (acc + distance (ps ! i) (ps ! (i - 1)))"
      by (subst totalDistance_loop.simps) simp
    also have "\<dots> = acc + distance (ps ! i) (ps ! (i - 1)) +
        (\<Sum>j = i + 1..<length ps. distance (ps ! j) (ps ! (j - 1)))"
      using "1.IH" True by simp
    also have "\<dots> = acc + (\<Sum>j = i..<length ps. distance (ps ! j) (ps ! (j - 1)))"
      using True by (simp add: sum.atLeast_Suc_lessThan)
    finally show ?thesis .
  next
    case False
    with "1.prems" have "i = length ps" by simp
    then show ?thesis by (subst totalDistance_loop.simps) simp
  qed
qed

lemma totalDistance_loop_beyond:
  "length ps < i \<Longrightarrow> totalDistance_loop ps i acc = acc"
  by (subst totalDistance_loop.simps) simp

lemma totalDistance_path_length: "totalDistance_loop ps (Suc 0) 0 = path_length ps"
proof (cases "1 \<le> length ps")
  case True
  then show ?thesis using totalDistance_loop_sum [of 1 ps 0] by (simp add: path_length_def)
next
  case False
  then have "ps = []" by (cases ps) auto
  then show ?thesis by (simp add: path_length_def totalDistance_loop_beyond)
qed

lemma calculateComplexity_closed:
  assumes "timing g \<noteq> []"
  shows "calculateComplexity g =
     Num (real_of_int (min 10 (max 1 \<lfloor>1 + 0.5 * real (length (positions g))
            + 0.1 * path_length (positions g)
            + 0.01 * population_variance (timing g) + 1 / 2\<rfloor>)))"
proof -
  have n: "real (length (timing g)) \<noteq> 0" using assms by simp
  show ?thesis
    using n
    by (simp add: calculateComplexity_def js_div_def Let_def foldl_plus_sum_list [where f = "\<lambda>v. v", simplified]
        foldl_plus_sum_list totalDistance_path_length population_variance_def Math_round_def algebra_simps)
qed

lemma path_length_snoc: "path_length ps \<le> path_length (ps @ [p])"
proof (cases "ps = []")
  case True
  then show ?thesis by (simp add: path_length_def)
next
  case False
  then have one: "1 \<le> length ps" by (cases ps) auto
  have "path_length (ps @ [p]) =
      (\<Sum>j = 1..<Suc (length ps). distance ((ps @ [p]) ! j) ((ps @ [p]) ! (j - 1)))"
    by (simp add: path_length_def)
  also have "\<dots> =
      (\<Sum>j = 1..<length ps. distance ((ps @ [p]) ! j) ((ps @ [p]) ! (j - 1)))
      + distance ((ps @ [p]) ! length ps) ((ps @ [p]) ! (length ps - 1))"
    using one by (rule sum.atLeastLessThan_Suc)
  also have "(\<Sum>j = 1..<length ps. distance ((ps @ [p]) ! j) ((ps @ [p]) ! (j - 1))) = path_length ps"
    unfolding path_length_def by (rule sum.cong) (auto simp: nth_append)
  finally show ?thesis
    using distance_nonneg [of "(ps @ [p]) ! length ps" "(ps @ [p]) ! (length ps - 1)"] by linarith
qed

lemma path_length_three_equal: "path_length [p, p, p] = 0"
  by (simp add: path_length_def numeral_3_eq_3 sum.atLeast_Suc_lessThan distance_self)

lemma distance_step: "distance (Position 0 3 4) (Position 0 0 0) = 5"
proof -
  have "sqrt 25 = (5 :: real)" by (rule real_sqrt_unique) simp_all
  then show ?thesis by (simp add: distance_def)
qed

lemma path_length_four: "path_length [p, p, p, q] = distance q p"
  by (simp add: path_length_def numeral_eq_Suc sum.atLeast_Suc_lessThan distance_self)

text \<open>
  C8. For a sample with at least one timestamp (every admissible sample has three to ten),
  \<open>calculateComplexity\<close> returns the integer obtained from
  \<open>1 + 0.5 * N + 0.1 * (sum of the distances between consecutive positions) +
  0.01 * (variance of the timestamps)\<close> by rounding to the nearest integer (a tie goes
  up) and clamping to the range from 1 to 10; the result is an integer between 1 and 10.
\<close>

theorem calculateComplexity_formula:
  assumes "timing g \<noteq> []"
  shows "\<exists>k. calculateComplexity g = Num (real_of_int k)
           \<and> k = min 10 (max 1 \<lfloor>1 + 0.5 * real (length (positions g))
                    + 0.1 * path_length (positions g)
                    + 0.01 * population_variance (timing g) + 1 / 2\<rfloor>)
           \<and> 1 \<le> k \<and> k \<le> 10"
  using calculateComplexity_closed [OF assms] by simp

theorem calculateComplexity_formula_witness:
  "calculateComplexity
      \<lparr>positions = [Position 0 0 0, Position 0 0 0, Position 0 0 0], timing = [0, 10, 20]\<rparr> = Num 3"
  using calculateComplexity_formula [of
      "\<lparr>positions = [Position 0 0 0, Position 0 0 0, Position 0 0 0], timing = [0, 10, 20]\<rparr>"]
  by (simp add: path_length_three_equal population_variance_def power2_eq_square)

text \<open>
  C9. With the timestamps unchanged, appending one position to a sample never lowers its
  complexity.
\<close>

theorem calculateComplexity_mono_positions:
  assumes "timing g \<noteq> []"
  shows "\<exists>k k'. calculateComplexity g = Num (real_of_int k)
           \<and> calculateComplexity (g\<lparr>positions := positions g @ [p]\<rparr>) = Num (real_of_int k')
           \<and> k \<le> k'"
proof -
  let ?v = "0.01 * population_variance (timing g) + 1 / 2"
  let ?c = "1 + 0.5 * real (length (positions g)) + 0.1 * path_length (positions g) + ?v"
  let ?c' = "1 + 0.5 * real (length (positions g @ [p])) + 0.1 * path_length (positions g @ [p]) + ?v"
  have "?c \<le> ?c'" using path_length_snoc [of "positions g" p] by (simp add: field_simps)
  then have "\<lfloor>?c\<rfloor> \<le> \<lfloor>?c'\<rfloor>" by (rule floor_mono)
  then have le: "min 10 (max 1 \<lfloor>?c\<rfloor>) \<le> min 10 (max 1 \<lfloor>?c'\<rfloor>)" by simp
  have a: "calculateComplexity g = Num (real_of_int (min 10 (max 1 \<lfloor>?c\<rfloor>)))"
    using calculateComplexity_closed [OF assms] by simp
  have "timing (g\<lparr>positions := positions g @ [p]\<rparr>) \<noteq> []" using assms by simp
  from calculateComplexity_closed [OF this]
  have b: "calculateComplexity (g\<lparr>positions := positions g @ [p]\<rparr>)
      = Num (real_of_int (min 10 (max 1 \<lfloor>?c'\<rfloor>)))"
    by simp
  show ?thesis using a b le by blast
qed

theorem calculateComplexity_mono_positions_witness:
  "calculateComplexity
      \<lparr>positions = [Position 0 0 0, Position 0 0 0, Position 0 0 0], timing = [0, 10, 20]\<rparr>
     = Num 3
   \<and> calculateComplexity
      \<lparr>positions = [Position 0 0 0, Position 0 0 0, Position 0 0 0, Position 0 3 4],
       timing = [0, 10, 20]\<rparr>
     = Num 4"
proof -
  have a: "calculateComplexity
      \<lparr>positions = [Position 0 0 0, Position 0 0 0, Position 0 0 0], timing = [0, 10, 20]\<rparr> = Num 3"
    by (simp add: calculateComplexity_closed path_length_three_equal population_variance_def
        power2_eq_square)
  have b: "calculateComplexity
      \<lparr>positions = [Position 0 0 0, Position 0 0 0, Position 0 0 0, Position 0 3 4],
       timing = [0, 10, 20]\<rparr> = Num 4"
    by (simp add: calculateComplexity_closed path_length_four distance_step population_variance_def
        power2_eq_square)
  show ?thesis
    using a b calculateComplexity_mono_positions [of
      "\<lparr>positions = [Position 0 0 0, Position 0 0 0, Position 0 0 0], timing = [0, 10, 20]\<rparr>"
      "Position 0 3 4"]
    by simp
qed

end
